theory Spec2Isabelle
  imports Main
begin

section \<open>JavaScript strings and values\<close>

text \<open>
  A JavaScript string is a sequence of UTF-16 code units and \<open>length\<close> counts code units.
  The model writes a string as a \<open>string\<close> with one \<open>char\<close> per code unit, which covers the
  code units U+0000 to U+00FF. The built-in methods the source calls are written out below for
  that range: \<open>trim\<close>, \<open>toLowerCase\<close>, \<open>includes\<close>, \<open>split('\n')\<close>, \<open>substring\<close> and
  \<open>Array.prototype.join\<close>.
\<close>

definition isWhiteSpace :: "char \<Rightarrow> bool" where
  \<comment> \<open>WhiteSpace and LineTerminator of ECMAScript below U+0100: TAB, LF, VT, FF, CR, SP, NBSP.\<close>
  "isWhiteSpace c =
     (c = CHR 0x09 \<or> c = CHR 0x0A \<or> c = CHR 0x0B \<or> c = CHR 0x0C \<or> c = CHR 0x0D
      \<or> c = CHR 0x20 \<or> c = CHR 0xA0)"

definition js_trim :: "string \<Rightarrow> string" where
  "js_trim s = rev (dropWhile isWhiteSpace (rev (dropWhile isWhiteSpace s)))"

definition toLowerCase_unit :: "char \<Rightarrow> char" where
  \<comment> \<open>A to Z, and the Latin-1 capitals U+00C0 to U+00DE without the multiplication sign.\<close>
  "toLowerCase_unit c =
     (let n = (of_char c :: nat)
      in if (65 \<le> n \<and> n \<le> 90) \<or> (192 \<le> n \<and> n \<le> 222 \<and> n \<noteq> 215)
         then char_of (n + 32) else c)"

definition toLowerCase :: "string \<Rightarrow> string" where
  "toLowerCase s = map toLowerCase_unit s"

fun startsWith :: "string \<Rightarrow> string \<Rightarrow> bool" where
  "startsWith s [] = True"
| "startsWith [] (p # ps) = False"
| "startsWith (c # cs) (p # ps) = (c = p \<and> startsWith cs ps)"

fun js_includes :: "string \<Rightarrow> string \<Rightarrow> bool" where
  \<comment> \<open>\<open>s.includes(t)\<close>: \<open>t\<close> occurs in \<open>s\<close> as a contiguous run.\<close>
  "js_includes [] t = (t = [])"
| "js_includes (c # cs) t = (startsWith (c # cs) t \<or> js_includes cs t)"

fun split_newline :: "string \<Rightarrow> string list" where
  \<comment> \<open>\<open>s.split('\n')\<close>: never empty; the empty string gives one empty piece.\<close>
  "split_newline [] = [[]]"
| "split_newline (c # cs) =
     (if c = CHR 0x0A then [] # split_newline cs
      else (c # hd (split_newline cs)) # tl (split_newline cs))"

definition substring :: "string \<Rightarrow> nat \<Rightarrow> nat \<Rightarrow> string" where
  \<comment> \<open>\<open>s.substring(a, b)\<close>: both indices are clamped to the length, the smaller one starts.\<close>
  "substring s a b =
     (let a' = min a (length s); b' = min b (length s)
      in take (max a' b' - min a' b') (drop (min a' b') s))"

fun js_join :: "string \<Rightarrow> string list \<Rightarrow> string" where
  "js_join sep [] = []"
| "js_join sep [x] = x"
| "js_join sep (x # y # ys) = x @ sep @ js_join sep (y # ys)"

text \<open>
  The values a property of the \<open>sections\<close> object can hold while \<open>structureAnalysis\<close> runs:
  a string, an array of strings, or \<open>undefined\<close>.
\<close>

datatype js_value = Undefined | Str string | Arr "string list"

fun truthy :: "js_value \<Rightarrow> bool" where
  \<comment> \<open>ToBoolean: the empty string and \<open>undefined\<close> are falsy; every object is truthy, and an
      array is an object, the empty array \<open>[]\<close> too.\<close>
  "truthy Undefined = False"
| "truthy (Str s) = (s \<noteq> [])"
| "truthy (Arr a) = True"

fun ToString :: "js_value \<Rightarrow> string" where
  \<comment> \<open>An array converts by \<open>join(',')\<close>, so \<open>[]\<close> converts to the empty string.\<close>
  "ToString Undefined = ''undefined''"
| "ToString (Str s) = s"
| "ToString (Arr a) = js_join '','' a"

definition plus_string :: "js_value \<Rightarrow> string \<Rightarrow> js_value" where
  \<comment> \<open>\<open>v + s\<close> with a string on the right: the left operand is converted, the strings are
      concatenated. The result is a string whatever \<open>v\<close> was.\<close>
  "plus_string v s = Str (ToString v @ s)"

datatype exn = TypeError

section \<open>The result structurer: \<open>structureAnalysis\<close>\<close>

datatype section_name = Summary | Findings | Recommendations | Risks | Compliance

record sections =
  summary :: js_value
  findings :: js_value
  recommendations :: js_value
  risks :: js_value
  compliance :: js_value

fun get_section :: "sections \<Rightarrow> section_name \<Rightarrow> js_value" where
  "get_section s Summary = summary s"
| "get_section s Findings = findings s"
| "get_section s Recommendations = recommendations s"
| "get_section s Risks = risks s"
| "get_section s Compliance = compliance s"

fun set_section :: "sections \<Rightarrow> section_name \<Rightarrow> js_value \<Rightarrow> sections" where
  "set_section s Summary v = s\<lparr>summary := v\<rparr>"
| "set_section s Findings v = s\<lparr>findings := v\<rparr>"
| "set_section s Recommendations v = s\<lparr>recommendations := v\<rparr>"
| "set_section s Risks v = s\<lparr>risks := v\<rparr>"
| "set_section s Compliance v = s\<lparr>compliance := v\<rparr>"

definition initial_sections :: sections where
  "initial_sections =
     \<lparr>summary = Str [], findings = Arr [], recommendations = Arr [], risks = Arr [],
      compliance = Arr []\<rparr>"

definition nonblank_lines :: "string \<Rightarrow> string list" where
  \<comment> \<open>\<open>analysisText.split('\n').filter(line => line.trim())\<close>\<close>
  "nonblank_lines t = filter (\<lambda>line. js_trim line \<noteq> []) (split_newline t)"

definition is_heading :: "string \<Rightarrow> bool" where
  "is_heading line =
     (let lowerLine = toLowerCase line
      in js_includes lowerLine ''summary'' \<or> js_includes lowerLine ''overview'')"

fun scan :: "string list \<Rightarrow> section_name \<times> string \<Rightarrow> section_name \<times> string" where
  \<comment> \<open>The \<open>for (const line of lines)\<close> loop over the state (currentSection, currentContent).\<close>
  "scan [] st = st"
| "scan (line # rest) (currentSection, currentContent) =
     scan rest
       (if is_heading line then Compliance else currentSection,
        currentContent @ line @ [CHR 0x0A])"

definition flush :: "section_name \<times> string \<Rightarrow> sections \<Rightarrow> sections" where
  \<comment> \<open>\<open>if (currentContent) sections[currentSection] += currentContent\<close>\<close>
  "flush st s =
     (case st of (currentSection, currentContent) \<Rightarrow>
        if currentContent \<noteq> []
        then set_section s currentSection (plus_string (get_section s currentSection) currentContent)
        else s)"

definition to_lines :: "section_name \<Rightarrow> sections \<Rightarrow> exn + sections" where
  \<comment> \<open>The callback of the \<open>forEach\<close>. The guard \<open>if (sections[section])\<close> is ToBoolean, so an
      array passes it; an array has no \<open>split\<close> method and calling it throws a TypeError.\<close>
  "to_lines sec s =
     (if truthy (get_section s sec)
      then (case get_section s sec of
              Str t \<Rightarrow>
                Inr (set_section s sec
                       (Arr (map js_trim (filter (\<lambda>item. js_trim item \<noteq> []) (split_newline t)))))
            | _ \<Rightarrow> Inl TypeError)
      else Inr s)"

fun forEach :: "('a \<Rightarrow> 's \<Rightarrow> exn + 's) \<Rightarrow> 'a list \<Rightarrow> 's \<Rightarrow> exn + 's" where
  \<comment> \<open>An exception thrown by the callback ends the iteration.\<close>
  "forEach f [] s = Inr s"
| "forEach f (x # xs) s = (case f x s of Inl e \<Rightarrow> Inl e | Inr s' \<Rightarrow> forEach f xs s')"

definition structure_try :: "string option \<Rightarrow> exn + sections" where
  \<comment> \<open>The body of the \<open>try\<close> block. \<open>None\<close> is an \<open>analysisText\<close> that is \<open>undefined\<close> or
      \<open>null\<close>: reading its \<open>split\<close> property throws.\<close>
  "structure_try analysisText =
     (case analysisText of
        None \<Rightarrow> Inl TypeError
      | Some t \<Rightarrow>
          forEach to_lines [Findings, Recommendations, Risks, Compliance]
            (flush (scan (nonblank_lines t) (Summary, [])) initial_sections))"

definition degraded :: "string option \<Rightarrow> sections" where
  \<comment> \<open>The object the \<open>catch\<close> block returns.\<close>
  "degraded analysisText =
     \<lparr>summary = (case analysisText of None \<Rightarrow> Undefined | Some t \<Rightarrow> Str t),
      findings = Arr [], recommendations = Arr [], risks = Arr [], compliance = Arr []\<rparr>"

definition structureAnalysis :: "string option \<Rightarrow> string option \<Rightarrow> sections" where
  \<comment> \<open>The second parameter, \<open>analysisType\<close>, is not read by the source.\<close>
  "structureAnalysis analysisText analysisType =
     (case structure_try analysisText of
        Inr s \<Rightarrow> s
      | Inl e \<Rightarrow> degraded analysisText)"

section \<open>Instruction selection\<close>

definition template_block :: "string list \<Rightarrow> string" where
  \<comment> \<open>The text of one template literal of \<open>ANALYSIS_PROMPTS\<close>: a newline after the opening
      backquote, the lines with their indentation, each ended by a newline, and the two spaces
      before the closing backquote.\<close>
  "template_block ls = [CHR 0x0A] @ concat (map (\<lambda>l. l @ [CHR 0x0A]) ls) @ ''  ''"

definition security_review_prompt :: string where
  "security_review_prompt =
     template_block
       [''    Please perform a comprehensive cybersecurity review of this document. Focus on:'',
        ''    1. Security vulnerabilities or weaknesses mentioned'',
        ''    2. Compliance with security standards (ISO 27001, NIST, etc.)'',
        ''    3. Risk assessment and mitigation strategies'',
        ''    4. Access control and authentication mechanisms'',
        ''    5. Data protection and privacy considerations'',
        ''    6. Incident response procedures'',
        ''    7. Security awareness and training requirements'',
        ''    '',
        ''    Provide specific recommendations for improvement and highlight any critical security gaps.'']"

definition policy_analysis_prompt :: string where
  "policy_analysis_prompt =
     template_block
       [''    Analyze this document as a cybersecurity policy or procedure. Evaluate:'',
        ''    1. Completeness and clarity of policy statements'',
        ''    2. Alignment with industry best practices'',
        ''    3. Enforceability and measurability'',
        ''    4. Coverage of key security domains'',
        ''    5. Roles and responsibilities definition'',
        ''    6. Compliance and audit requirements'',
        ''    7. Update and review mechanisms'',
        ''    '',
        ''    Suggest improvements and identify missing policy elements.'']"

definition compliance_check_prompt :: string where
  "compliance_check_prompt =
     template_block
       [''    Review this document for compliance with major cybersecurity frameworks and regulations:'',
        ''    1. GDPR/CCPA privacy requirements'',
        ''    2. SOX financial controls'',
        ''    3. HIPAA healthcare security (if applicable)'',
        ''    4. PCI DSS payment security (if applicable)'',
        ''    5. ISO 27001/27002 standards'',
        ''    6. NIST Cybersecurity Framework'',
        ''    7. Industry-specific regulations'',
        ''    '',
        ''    Identify compliance gaps and provide remediation recommendations.'']"

definition general_prompt :: string where
  "general_prompt =
     template_block
       [''    Analyze this document from a cybersecurity perspective and provide:'',
        ''    1. Summary of key security-related content'',
        ''    2. Identification of security strengths and weaknesses'',
        ''    3. Risk areas that need attention'',
        ''    4. Best practices recommendations'',
        ''    5. Implementation guidance'',
        ''    6. Priority areas for improvement'',
        ''    '',
        ''    Focus on practical, actionable insights that can improve the organization's security posture.'']"

text \<open>
  \<open>ANALYSIS_PROMPTS\<close> is an object literal, so its prototype is \<open>Object.prototype\<close>, and
  \<open>ANALYSIS_PROMPTS[key]\<close> is a property read that follows the prototype chain: a key that
  is not one of the four own keys but names a member of \<open>Object.prototype\<close> yields that
  member, a built-in function (or \<open>Object.prototype\<close> itself under \<open>__proto__\<close>).
\<close>

datatype prompt_value = Text string | Inherited string

definition Object_prototype_keys :: "string list" where
  "Object_prototype_keys =
     [''constructor'', ''__defineGetter__'', ''__defineSetter__'', ''hasOwnProperty'',
      ''__lookupGetter__'', ''__lookupSetter__'', ''isPrototypeOf'', ''propertyIsEnumerable'',
      ''toString'', ''valueOf'', ''__proto__'', ''toLocaleString'']"

definition ANALYSIS_PROMPTS :: "string \<Rightarrow> prompt_value option" where
  \<comment> \<open>\<open>None\<close> is \<open>undefined\<close>: no property of that name on the object or its prototype.\<close>
  "ANALYSIS_PROMPTS key =
     (if key = ''security-review'' then Some (Text security_review_prompt)
      else if key = ''policy-analysis'' then Some (Text policy_analysis_prompt)
      else if key = ''compliance-check'' then Some (Text compliance_check_prompt)
      else if key = ''general'' then Some (Text general_prompt)
      else if key \<in> set Object_prototype_keys then Some (Inherited key)
      else None)"

definition property_key :: "string option \<Rightarrow> string" where
  \<comment> \<open>ToPropertyKey of an \<open>analysisType\<close> that is a string or \<open>undefined\<close> (\<open>None\<close>).\<close>
  "property_key analysisType = (case analysisType of None \<Rightarrow> ''undefined'' | Some k \<Rightarrow> k)"

fun prompt_truthy :: "prompt_value \<Rightarrow> bool" where
  "prompt_truthy (Text s) = (s \<noteq> [])"
| "prompt_truthy (Inherited k) = True"

definition select_prompt :: "string option \<Rightarrow> string option \<Rightarrow> prompt_value" where
  \<comment> \<open>\<open>customPrompt || ANALYSIS_PROMPTS[analysisType] || ANALYSIS_PROMPTS['general']\<close>, the
      first line of each adapter. A \<open>customPrompt\<close> of \<open>None\<close> is \<open>null\<close> or \<open>undefined\<close>.\<close>
  "select_prompt analysisType customPrompt =
     (case customPrompt of
        Some p \<Rightarrow>
          if p \<noteq> [] then Text p
          else (case ANALYSIS_PROMPTS (property_key analysisType) of
                  Some v \<Rightarrow> if prompt_truthy v then v else Text general_prompt
                | None \<Rightarrow> Text general_prompt)
      | None \<Rightarrow>
          (case ANALYSIS_PROMPTS (property_key analysisType) of
             Some v \<Rightarrow> if prompt_truthy v then v else Text general_prompt
           | None \<Rightarrow> Text general_prompt))"

definition prompt_text :: "prompt_value \<Rightarrow> string" where
  \<comment> \<open>\<open>${prompt}\<close> inside the template literal. A string is taken as it is; a built-in function
      converts to its native source text and \<open>Object.prototype\<close> to \<open>[object Object]\<close>
      (the wording of V8, the engine of Node.js).\<close>
  "prompt_text p =
     (case p of
        Text s \<Rightarrow> s
      | Inherited k \<Rightarrow>
          if k = ''__proto__'' then ''[object Object]''
          else ''function '' @ (if k = ''constructor'' then ''Object'' else k)
               @ ''() { [native code] }'')"

section \<open>Provider adapters\<close>

datatype adapter = Claude | OpenAI | Gemini

record env =
  CLAUDE_API_KEY :: "string option"
  OPENAI_API_KEY :: "string option"
  GEMINI_API_KEY :: "string option"

definition configured :: "string option \<Rightarrow> bool" where
  \<comment> \<open>Truthiness of \<open>process.env.X\<close>: the variable is set and not the empty string.\<close>
  "configured k = (case k of None \<Rightarrow> False | Some s \<Rightarrow> s \<noteq> [])"

definition env_text :: "string option \<Rightarrow> string" where
  \<comment> \<open>\<open>${process.env.X}\<close> inside a template literal.\<close>
  "env_text k = (case k of None \<Rightarrow> ''undefined'' | Some s \<Rightarrow> s)"

text \<open>
  What \<open>axios.post\<close> is given. The sampling temperature 0.3 that the OpenAI and Gemini bodies
  carry is a constant and is left out.
\<close>

record request =
  url :: string
  headers :: "(string \<times> string option) list"
  body_model :: "string option"
  system_content :: "string option"
  user_content :: string
  max_tokens :: nat
  timeout :: nat

definition user_message :: "prompt_value \<Rightarrow> string \<Rightarrow> string" where
  \<comment> \<open>\<open>`${prompt}\n\nDocument content:\n${content.substring(0, 50000)}`\<close>\<close>
  "user_message prompt content =
     prompt_text prompt @ [CHR 0x0A, CHR 0x0A] @ ''Document content:'' @ [CHR 0x0A]
     @ substring content 0 50000"

definition claude_request :: "env \<Rightarrow> prompt_value \<Rightarrow> string \<Rightarrow> request" where
  "claude_request e prompt content =
     \<lparr>url = ''https://api.anthropic.com/v1/messages'',
      headers = [(''Authorization'', Some (''Bearer '' @ env_text (CLAUDE_API_KEY e))),
                 (''Content-Type'', Some ''application/json''),
                 (''x-api-key'', CLAUDE_API_KEY e)],
      body_model = Some ''claude-3-sonnet-20240229'',
      system_content = None,
      user_content = user_message prompt content,
      max_tokens = 4000,
      timeout = 60000\<rparr>"

definition openai_request :: "env \<Rightarrow> prompt_value \<Rightarrow> string \<Rightarrow> request" where
  "openai_request e prompt content =
     \<lparr>url = ''https://api.openai.com/v1/chat/completions'',
      headers = [(''Authorization'', Some (''Bearer '' @ env_text (OPENAI_API_KEY e))),
                 (''Content-Type'', Some ''application/json'')],
      body_model = Some ''gpt-4'',
      system_content =
        Some ''You are a cybersecurity expert specializing in document analysis and security assessments.'',
      user_content = user_message prompt content,
      max_tokens = 4000,
      timeout = 60000\<rparr>"

definition gemini_request :: "env \<Rightarrow> prompt_value \<Rightarrow> string \<Rightarrow> request" where
  "gemini_request e prompt content =
     \<lparr>url = ''https://generativelanguage.googleapis.com/v1beta/models/gemini-pro:generateContent?key=''
            @ env_text (GEMINI_API_KEY e),
      headers = [(''Content-Type'', Some ''application/json'')],
      body_model = None,
      system_content = None,
      user_content = user_message prompt content,
      max_tokens = 4000,
      timeout = 60000\<rparr>"

text \<open>
  What \<open>axios.post\<close> gives back. A rejection is the thrown error as far as the \<open>catch\<close> blocks
  read it, together with the HTTP status, which they do not read. A response is \<open>response.data\<close>
  as far as the three adapters read it; a field that the provider did not send is \<open>None\<close>.
\<close>

record caught =
  http_status :: "nat option"
  response_message :: "string option"
  message :: string

record response_data =
  data_content :: "string option list option"
  data_usage :: "(nat option \<times> nat option) option"
  data_choices :: "string option option list option"
  data_total_tokens :: "nat option"
  data_candidates :: "string option list option"
  data_totalTokenCount :: "nat option"

type_synonym transport = "request \<Rightarrow> caught + response_data"

record metadata =
  meta_analysisType :: string
  meta_contentLength :: nat
  meta_processingTime :: int
  meta_timestamp :: int

record analysis_result =
  res_provider :: string
  res_analysis :: "string option"
  res_model :: string
  res_tokensUsed :: nat
  res_status :: string
  res_metadata :: "metadata option"
  res_structuredAnalysis :: "sections option"

datatype error =
    EmptyContent
  | TooShort
  | NotConfigured adapter
  | UnsupportedProvider string
  | ServiceError adapter string

fun error_message :: "error \<Rightarrow> string" where
  \<comment> \<open>Every failure of the source is a plain \<open>Error\<close>; this is its \<open>message\<close>.\<close>
  "error_message EmptyContent = ''No content provided for analysis''"
| "error_message TooShort = ''Content too short for meaningful analysis''"
| "error_message (NotConfigured Claude) = ''Claude API key not configured''"
| "error_message (NotConfigured OpenAI) = ''OpenAI API key not configured''"
| "error_message (NotConfigured Gemini) = ''Gemini API key not configured''"
| "error_message (UnsupportedProvider p) = ''Unsupported AI provider: '' @ p"
| "error_message (ServiceError Claude d) = ''Claude AI service error: '' @ d"
| "error_message (ServiceError OpenAI d) = ''OpenAI service error: '' @ d"
| "error_message (ServiceError Gemini d) = ''Gemini service error: '' @ d"

definition detail :: "caught \<Rightarrow> string" where
  \<comment> \<open>\<open>error.response?.data?.error?.message || error.message\<close>\<close>
  "detail err =
     (case response_message err of
        Some m \<Rightarrow> if m \<noteq> [] then m else message err
      | None \<Rightarrow> message err)"

definition type_error :: "string \<Rightarrow> caught" where
  \<comment> \<open>The TypeError of reading property \<open>p\<close> of \<open>undefined\<close> (the wording of V8).\<close>
  "type_error p =
     \<lparr>http_status = None, response_message = None,
      message = ''Cannot read properties of undefined (reading '' @ [CHR 0x27] @ p @ [CHR 0x27] @ '')''\<rparr>"

definition claude_text :: "response_data \<Rightarrow> caught + string option" where
  \<comment> \<open>\<open>response.data.content[0].text\<close>\<close>
  "claude_text d =
     (case data_content d of
        None \<Rightarrow> Inl (type_error ''0'')
      | Some [] \<Rightarrow> Inl (type_error ''text'')
      | Some (t # ts) \<Rightarrow> Inr t)"

definition claude_tokens :: "response_data \<Rightarrow> nat" where
  \<comment> \<open>\<open>usage?.input_tokens + usage?.output_tokens || 0\<close>: a sum with \<open>undefined\<close> is NaN, falsy.\<close>
  "claude_tokens d =
     (case data_usage d of
        Some (Some i, Some out) \<Rightarrow> i + out
      | _ \<Rightarrow> 0)"

definition openai_text :: "response_data \<Rightarrow> caught + string option" where
  \<comment> \<open>\<open>response.data.choices[0].message.content\<close>\<close>
  "openai_text d =
     (case data_choices d of
        None \<Rightarrow> Inl (type_error ''0'')
      | Some [] \<Rightarrow> Inl (type_error ''message'')
      | Some (None # cs) \<Rightarrow> Inl (type_error ''content'')
      | Some (Some c # cs) \<Rightarrow> Inr c)"

definition gemini_text :: "response_data \<Rightarrow> string option" where
  \<comment> \<open>\<open>response.data.candidates?.[0]?.content?.parts?.[0]?.text\<close>\<close>
  "gemini_text d =
     (case data_candidates d of
        None \<Rightarrow> None
      | Some [] \<Rightarrow> None
      | Some (t # ts) \<Rightarrow> t)"

definition tokens_or_zero :: "nat option \<Rightarrow> nat" where
  "tokens_or_zero n = (case n of None \<Rightarrow> 0 | Some k \<Rightarrow> k)"

text \<open>
  The effects of a run, in order: an adapter function is entered, \<open>axios.post\<close> is called.
\<close>

datatype event = Invoke adapter | Post request

definition analyzeWithClaude ::
  "env \<Rightarrow> transport \<Rightarrow> string \<Rightarrow> string option \<Rightarrow> string option
   \<Rightarrow> (error + analysis_result) \<times> event list" where
  "analyzeWithClaude e net content analysisType customPrompt =
     (let prompt = select_prompt analysisType customPrompt;
          req = claude_request e prompt content
      in (case net req of
            Inl err \<Rightarrow> Inl (ServiceError Claude (detail err))
          | Inr d \<Rightarrow>
              (case claude_text d of
                 Inl err \<Rightarrow> Inl (ServiceError Claude (detail err))
               | Inr t \<Rightarrow>
                   Inr \<lparr>res_provider = ''claude'', res_analysis = t,
                        res_model = ''claude-3-sonnet'', res_tokensUsed = claude_tokens d,
                        res_status = ''success'', res_metadata = None,
                        res_structuredAnalysis = None\<rparr>),
          [Invoke Claude, Post req]))"

definition analyzeWithOpenAI ::
  "env \<Rightarrow> transport \<Rightarrow> string \<Rightarrow> string option \<Rightarrow> string option
   \<Rightarrow> (error + analysis_result) \<times> event list" where
  "analyzeWithOpenAI e net content analysisType customPrompt =
     (let prompt = select_prompt analysisType customPrompt;
          req = openai_request e prompt content
      in (case net req of
            Inl err \<Rightarrow> Inl (ServiceError OpenAI (detail err))
          | Inr d \<Rightarrow>
              (case openai_text d of
                 Inl err \<Rightarrow> Inl (ServiceError OpenAI (detail err))
               | Inr t \<Rightarrow>
                   Inr \<lparr>res_provider = ''openai'', res_analysis = t,
                        res_model = ''gpt-4'', res_tokensUsed = tokens_or_zero (data_total_tokens d),
                        res_status = ''success'', res_metadata = None,
                        res_structuredAnalysis = None\<rparr>),
          [Invoke OpenAI, Post req]))"

definition no_text_error :: caught where
  \<comment> \<open>\<open>new Error('No analysis text received from Gemini')\<close>, thrown inside the \<open>try\<close>.\<close>
  "no_text_error =
     \<lparr>http_status = None, response_message = None,
      message = ''No analysis text received from Gemini''\<rparr>"

definition analyzeWithGemini ::
  "env \<Rightarrow> transport \<Rightarrow> string \<Rightarrow> string option \<Rightarrow> string option
   \<Rightarrow> (error + analysis_result) \<times> event list" where
  "analyzeWithGemini e net content analysisType customPrompt =
     (let prompt = select_prompt analysisType customPrompt;
          req = gemini_request e prompt content
      in (case net req of
            Inl err \<Rightarrow> Inl (ServiceError Gemini (detail err))
          | Inr d \<Rightarrow>
              (case gemini_text d of
                 None \<Rightarrow> Inl (ServiceError Gemini (detail no_text_error))
               | Some t \<Rightarrow>
                   if t = [] then Inl (ServiceError Gemini (detail no_text_error))
                   else Inr \<lparr>res_provider = ''gemini'', res_analysis = Some t,
                             res_model = ''gemini-pro'',
                             res_tokensUsed = tokens_or_zero (data_totalTokenCount d),
                             res_status = ''success'', res_metadata = None,
                             res_structuredAnalysis = None\<rparr>),
          [Invoke Gemini, Post req]))"

section \<open>The entry point: \<open>analyzeWithAI\<close>\<close>

text \<open>
  Calls of the logger are left out: they write to the log and change neither the result nor
  the error of a run.

  The wall clock is an oracle from the places of a run to the milliseconds \<open>Date.now()\<close> would
  return there: on entry (line 181, read into \<open>startTime\<close>), when the adapter is called (the
  source does not read the clock there), after the adapter has returned (line 220), and when
  the timestamp of the metadata is taken (line 227, kept as a number).
\<close>

datatype point = Entry | Dispatch | Returned | Stamped

definition complete ::
  "(point \<Rightarrow> int) \<Rightarrow> int \<Rightarrow> string \<Rightarrow> string \<Rightarrow> (error + analysis_result) \<times> event list
   \<Rightarrow> (error + analysis_result) \<times> event list" where
  \<comment> \<open>Lines 220 to 235, reached when the adapter has returned a result; an error of the adapter
      leaves the \<open>try\<close> block at the call and is thrown again by the \<open>catch\<close> as it is. The
      processing time is kept as the number of milliseconds the source renders with \<open>ms\<close>.\<close>
  "complete clock startTime content analysisType r =
     (case r of
        (Inl err, evs) \<Rightarrow> (Inl err, evs)
      | (Inr result, evs) \<Rightarrow>
          (let processingTime = clock Returned - startTime
           in (Inr (result
                  \<lparr>res_metadata :=
                     Some \<lparr>meta_analysisType = analysisType,
                           meta_contentLength = length content,
                           meta_processingTime = processingTime,
                           meta_timestamp = clock Stamped\<rparr>,
                   res_structuredAnalysis :=
                     Some (structureAnalysis (res_analysis result) (Some analysisType))\<rparr>),
               evs)))"

definition default_type :: "string option \<Rightarrow> string" where
  \<comment> \<open>The default parameter \<open>analysisType = 'general'\<close>: \<open>None\<close> is an omitted argument.\<close>
  "default_type analysisType = (case analysisType of None \<Rightarrow> ''general'' | Some t \<Rightarrow> t)"

definition analyzeWithAI ::
  "env \<Rightarrow> transport \<Rightarrow> (point \<Rightarrow> int) \<Rightarrow> string \<Rightarrow> string \<Rightarrow> string option \<Rightarrow> string option
   \<Rightarrow> (error + analysis_result) \<times> event list" where
  "analyzeWithAI e net clock content provider analysisType customPrompt =
     (let startTime = clock Entry;
          ty = default_type analysisType
      in if content = [] \<or> length (js_trim content) = 0 then (Inl EmptyContent, [])
         else if length content < 50 then (Inl TooShort, [])
         else if toLowerCase provider = ''claude'' then
           (if \<not> configured (CLAUDE_API_KEY e) then (Inl (NotConfigured Claude), [])
            else complete clock startTime content ty
                   (analyzeWithClaude e net content (Some ty) customPrompt))
         else if toLowerCase provider = ''openai'' then
           (if \<not> configured (OPENAI_API_KEY e) then (Inl (NotConfigured OpenAI), [])
            else complete clock startTime content ty
                   (analyzeWithOpenAI e net content (Some ty) customPrompt))
         else if toLowerCase provider = ''gemini'' then
           (if \<not> configured (GEMINI_API_KEY e) then (Inl (NotConfigured Gemini), [])
            else complete clock startTime content ty
                   (analyzeWithGemini e net content (Some ty) customPrompt))
         else (Inl (UnsupportedProvider provider), []))"

section \<open>Sample runs\<close>

text \<open>
  Concrete environments, transports, a clock and a document, at which the theorems below are
  instantiated.
\<close>

definition env_all :: env where
  "env_all = \<lparr>CLAUDE_API_KEY = Some ''sk-claude'', OPENAI_API_KEY = Some ''sk-openai'',
              GEMINI_API_KEY = Some ''sk-gemini''\<rparr>"

definition env_none :: env where
  "env_none = \<lparr>CLAUDE_API_KEY = None, OPENAI_API_KEY = Some [], GEMINI_API_KEY = None\<rparr>"

definition sample_content :: string where
  "sample_content = ''All staff must rotate passwords every ninety days and report incidents.''"

fun clock_example :: "point \<Rightarrow> int" where
  "clock_example Entry = 1000"
| "clock_example Dispatch = 1005"
| "clock_example Returned = 1007"
| "clock_example Stamped = 1008"

definition ok_data :: response_data where
  "ok_data =
     \<lparr>data_content = Some [Some ''Summary: ok''],
      data_usage = Some (Some 120, Some 30),
      data_choices = Some [Some (Some ''Summary: ok'')],
      data_total_tokens = Some 150,
      data_candidates = Some [Some ''Summary: ok''],
      data_totalTokenCount = Some 150\<rparr>"

definition net_ok :: transport where
  "net_ok req = Inr ok_data"

definition net_empty_candidates :: transport where
  "net_empty_candidates req = Inr (ok_data\<lparr>data_candidates := Some []\<rparr>)"

definition net_unavailable :: transport where
  "net_unavailable req =
     Inl \<lparr>http_status = Some 503,
          response_message = Some ''No analysis text received from Gemini'',
          message = ''Request failed with status code 503''\<rparr>"

definition net_timeout :: transport where
  "net_timeout req =
     Inl \<lparr>http_status = None, response_message = None,
          message = ''timeout of 60000ms exceeded''\<rparr>"

definition processingTime_of :: "(error + analysis_result) \<times> event list \<Rightarrow> int option" where
  \<comment> \<open>The processing time a run reports: that of the metadata of its result, if it has one.\<close>
  "processingTime_of run =
     (case fst run of
        Inl err \<Rightarrow> None
      | Inr result \<Rightarrow> map_option meta_processingTime (res_metadata result))"

section \<open>The result structurer never leaves its \<open>try\<close> block normally\<close>

text \<open>
  The scan only ever moves its target from \<open>summary\<close> to \<open>compliance\<close>, so the flush leaves
  \<open>findings\<close>, \<open>recommendations\<close> and \<open>risks\<close> as the empty arrays they started as. The
  conversion loop visits \<open>findings\<close> first; the empty array passes the truthiness guard and
  has no \<open>split\<close> method, so the loop throws on every input and the \<open>catch\<close> block answers.
\<close>

lemma scan_target:
  "fst (scan ls (cur, acc)) = (if list_ex is_heading ls then Compliance else cur)"
  by (induction ls arbitrary: cur acc) auto

lemma scan_content:
  "snd (scan ls (cur, acc)) = acc @ concat (map (\<lambda>line. line @ [CHR 0x0A]) ls)"
  by (induction ls arbitrary: cur acc) auto

lemma flush_keeps_arrays:
  assumes "fst st = Summary \<or> fst st = Compliance"
  shows "findings (flush st s) = findings s"
    and "recommendations (flush st s) = recommendations s"
    and "risks (flush st s) = risks s"
  using assms by (cases st; auto simp: flush_def)+

lemma findings_after_flush:
  "findings (flush (scan ls (Summary, acc)) initial_sections) = Arr []"
proof -
  have "fst (scan ls (Summary, acc)) = Summary \<or> fst (scan ls (Summary, acc)) = Compliance"
    by (simp add: scan_target)
  then have "findings (flush (scan ls (Summary, acc)) initial_sections) = findings initial_sections"
    by (rule flush_keeps_arrays)
  then show ?thesis by (simp add: initial_sections_def)
qed

lemma to_lines_array_throws:
  "get_section s sec = Arr a \<Longrightarrow> to_lines sec s = Inl TypeError"
  by (simp add: to_lines_def)

lemma structure_try_throws: "structure_try analysisText = Inl TypeError"
proof (cases analysisText)
  case None
  then show ?thesis by (simp add: structure_try_def)
next
  case (Some t)
  have "to_lines Findings (flush (scan (nonblank_lines t) (Summary, [])) initial_sections)
        = Inl TypeError"
    by (rule to_lines_array_throws [where a = "[]"]) (simp add: findings_after_flush)
  with Some show ?thesis by (simp add: structure_try_def)
qed

lemma structureAnalysis_degraded: "structureAnalysis analysisText analysisType = degraded analysisText"
  by (simp add: structureAnalysis_def structure_try_throws)

text \<open>
  Claim C7. The result structurer is total on strings and never fails: for every raw text it
  returns exactly the object whose \<open>summary\<close> is the full raw text and whose \<open>findings\<close>,
  \<open>recommendations\<close>, \<open>risks\<close> and \<open>compliance\<close> are empty. In particular it does so when
  the text has no recognizable structure.
\<close>

theorem structurer_always_degrades:
  "structureAnalysis (Some rawText) analysisType
   = \<lparr>summary = Str rawText, findings = Arr [], recommendations = Arr [], risks = Arr [],
      compliance = Arr []\<rparr>"
  by (simp add: structureAnalysis_degraded degraded_def)

theorem structurer_always_degrades_witness:
  "structureAnalysis (Some []) None
   = \<lparr>summary = Str [], findings = Arr [], recommendations = Arr [], risks = Arr [],
      compliance = Arr []\<rparr>
   \<and> structureAnalysis (Some ''No recognizable structure here'') (Some ''general'')
   = \<lparr>summary = Str ''No recognizable structure here'', findings = Arr [],
      recommendations = Arr [], risks = Arr [], compliance = Arr []\<rparr>"
  using structurer_always_degrades [of "[]" None]
    structurer_always_degrades [of "''No recognizable structure here''" "Some ''general''"]
  by simp

text \<open>
  Claim C10. For every input string the structurer returns \<open>findings\<close>, \<open>recommendations\<close>
  and \<open>risks\<close> empty. The target section of the scan, started at \<open>summary\<close>, is \<open>summary\<close> or
  \<open>compliance\<close> after any sequence of lines, and the flush leaves the three other sections as
  the empty arrays they were created as.
\<close>

theorem three_sections_stay_empty:
  "findings (structureAnalysis (Some rawText) analysisType) = Arr []
   \<and> recommendations (structureAnalysis (Some rawText) analysisType) = Arr []
   \<and> risks (structureAnalysis (Some rawText) analysisType) = Arr []
   \<and> (fst (scan ls (Summary, acc)) = Summary \<or> fst (scan ls (Summary, acc)) = Compliance)
   \<and> findings (flush (scan ls (Summary, acc)) initial_sections) = Arr []
   \<and> recommendations (flush (scan ls (Summary, acc)) initial_sections) = Arr []
   \<and> risks (flush (scan ls (Summary, acc)) initial_sections) = Arr []"
proof -
  have target: "fst (scan ls (Summary, acc)) = Summary \<or> fst (scan ls (Summary, acc)) = Compliance"
    by (simp add: scan_target)
  have "findings (flush (scan ls (Summary, acc)) initial_sections) = findings initial_sections"
    "recommendations (flush (scan ls (Summary, acc)) initial_sections)
     = recommendations initial_sections"
    "risks (flush (scan ls (Summary, acc)) initial_sections) = risks initial_sections"
    using target by (rule flush_keeps_arrays)+
  then have kept: "findings (flush (scan ls (Summary, acc)) initial_sections) = Arr []"
    "recommendations (flush (scan ls (Summary, acc)) initial_sections) = Arr []"
    "risks (flush (scan ls (Summary, acc)) initial_sections) = Arr []"
    by (simp_all add: initial_sections_def)
  have "structureAnalysis (Some rawText) analysisType = degraded (Some rawText)"
    by (rule structureAnalysis_degraded)
  then have "findings (structureAnalysis (Some rawText) analysisType) = Arr []"
    "recommendations (structureAnalysis (Some rawText) analysisType) = Arr []"
    "risks (structureAnalysis (Some rawText) analysisType) = Arr []"
    by (simp_all add: degraded_def)
  with target kept show ?thesis by simp
qed

theorem three_sections_stay_empty_witness:
  "findings (structureAnalysis (Some ''Findings:'') None) = Arr []
   \<and> fst (scan [''Overview'', ''Risks: none''] (Summary, [])) = Compliance
   \<and> risks (flush (scan [''Overview'', ''Risks: none''] (Summary, [])) initial_sections) = Arr []"
proof -
  have "fst (scan [''Overview'', ''Risks: none''] (Summary, [])) = Compliance"
    by code_simp
  then show ?thesis
    using three_sections_stay_empty [of "''Findings:''" None "[''Overview'', ''Risks: none'']" "[]"]
    by simp
qed

text \<open>
  Claim C6, evaluated on the text \<open>Summary: ok\<close>. The line contains "summary", so the scan
  moves the target to \<open>compliance\<close> and the flush stores the buffer there. The conversion
  of the sections into sequences of trimmed, non-blank lines then throws at \<open>findings\<close>, and
  the object returned has the raw text as \<open>summary\<close> and an empty \<open>compliance\<close>: the flushed
  section does not reach the result.
\<close>

theorem flushed_section_is_lost:
  "flush (scan (nonblank_lines ''Summary: ok'') (Summary, [])) initial_sections
   = \<lparr>summary = Str [], findings = Arr [], recommendations = Arr [], risks = Arr [],
      compliance = Str (''Summary: ok'' @ [CHR 0x0A])\<rparr>
   \<and> structure_try (Some ''Summary: ok'') = Inl TypeError
   \<and> structureAnalysis (Some ''Summary: ok'') (Some ''general'')
   = \<lparr>summary = Str ''Summary: ok'', findings = Arr [], recommendations = Arr [],
      risks = Arr [], compliance = Arr []\<rparr>"
  by code_simp

section \<open>Validation, dispatch and the adapters\<close>

lemma trim_empty_iff: "js_trim s = [] \<longleftrightarrow> list_all isWhiteSpace s"
proof
  assume "js_trim s = []"
  then have "dropWhile isWhiteSpace (rev (dropWhile isWhiteSpace s)) = []"
    by (simp add: js_trim_def)
  then have all: "\<forall>c \<in> set (dropWhile isWhiteSpace s). isWhiteSpace c"
    by (simp add: dropWhile_eq_Nil_conv)
  have "dropWhile isWhiteSpace s = []"
  proof (rule ccontr)
    assume ne: "dropWhile isWhiteSpace s \<noteq> []"
    then have "\<not> isWhiteSpace (hd (dropWhile isWhiteSpace s))"
      by (rule hd_dropWhile)
    moreover from ne have "hd (dropWhile isWhiteSpace s) \<in> set (dropWhile isWhiteSpace s)"
      by simp
    ultimately show False using all by blast
  qed
  then show "list_all isWhiteSpace s"
    by (simp add: dropWhile_eq_Nil_conv list_all_iff)
next
  assume "list_all isWhiteSpace s"
  then have "dropWhile isWhiteSpace s = []"
    by (simp add: dropWhile_eq_Nil_conv list_all_iff)
  then show "js_trim s = []"
    unfolding js_trim_def by (simp only: rev.simps dropWhile.simps)
qed

lemma substring_prefix: "substring s 0 n = take n s"
  by (simp add: substring_def Let_def min_def max_def)

lemma complete_error: "fst r = Inl err \<Longrightarrow> complete clock startTime content ty r = (Inl err, snd r)"
  by (cases r) (simp add: complete_def)

lemma complete_keeps_error: "fst r = Inl err \<Longrightarrow> fst (complete clock startTime content ty r) = Inl err"
  by (simp add: complete_error)

lemma complete_events: "snd (complete clock startTime content ty r) = snd r"
  by (cases r) (auto simp: complete_def Let_def split: sum.splits)

lemma complete_isl: "isl (fst (complete clock startTime content ty r)) = isl (fst r)"
  by (cases r) (auto simp: complete_def Let_def split: sum.splits)

lemma complete_failure:
  "fst (complete clock startTime content ty r) = Inl err \<Longrightarrow> fst r = Inl err"
  by (cases r) (auto simp: complete_def Let_def split: sum.splits)

lemma claude_failure:
  "fst (analyzeWithClaude e net content ty cp) = Inl err \<Longrightarrow> \<exists>d. err = ServiceError Claude d"
  by (auto simp: analyzeWithClaude_def Let_def split: sum.splits)

lemma openai_failure:
  "fst (analyzeWithOpenAI e net content ty cp) = Inl err \<Longrightarrow> \<exists>d. err = ServiceError OpenAI d"
  by (auto simp: analyzeWithOpenAI_def Let_def split: sum.splits)

lemma gemini_failure:
  "fst (analyzeWithGemini e net content ty cp) = Inl err \<Longrightarrow> \<exists>d. err = ServiceError Gemini d"
  by (auto simp: analyzeWithGemini_def Let_def split: sum.splits option.splits if_splits)

lemma dispatch_failure:
  assumes "\<not> list_all isWhiteSpace content" and "50 \<le> length content"
    and "fst (analyzeWithAI e net clock content provider analysisType customPrompt) = Inl err"
  shows "err \<noteq> EmptyContent \<and> err \<noteq> TooShort"
proof -
  have ne: "content \<noteq> []" "js_trim content \<noteq> []" "\<not> length content < 50"
    using assms(1,2) by (auto simp: trim_empty_iff)
  show ?thesis
    using assms(3) ne
    by (auto simp: analyzeWithAI_def Let_def split: if_splits
             dest!: complete_failure dest: claude_failure openai_failure gemini_failure)
qed

lemma dispatch_claude:
  assumes "\<not> list_all isWhiteSpace content" and "50 \<le> length content"
    and "toLowerCase provider = ''claude''" and "configured (CLAUDE_API_KEY e)"
  shows "analyzeWithAI e net clock content provider analysisType customPrompt
         = complete clock (clock Entry) content (default_type analysisType)
             (analyzeWithClaude e net content (Some (default_type analysisType)) customPrompt)"
  using assms by (auto simp: analyzeWithAI_def Let_def trim_empty_iff)

lemma dispatch_openai:
  assumes "\<not> list_all isWhiteSpace content" and "50 \<le> length content"
    and "toLowerCase provider = ''openai''" and "configured (OPENAI_API_KEY e)"
  shows "analyzeWithAI e net clock content provider analysisType customPrompt
         = complete clock (clock Entry) content (default_type analysisType)
             (analyzeWithOpenAI e net content (Some (default_type analysisType)) customPrompt)"
  using assms by (auto simp: analyzeWithAI_def Let_def trim_empty_iff)

lemma dispatch_gemini:
  assumes "\<not> list_all isWhiteSpace content" and "50 \<le> length content"
    and "toLowerCase provider = ''gemini''" and "configured (GEMINI_API_KEY e)"
  shows "analyzeWithAI e net clock content provider analysisType customPrompt
         = complete clock (clock Entry) content (default_type analysisType)
             (analyzeWithGemini e net content (Some (default_type analysisType)) customPrompt)"
  using assms by (auto simp: analyzeWithAI_def Let_def trim_empty_iff)

lemma claude_rejected:
  "net (claude_request e (select_prompt ty cp) content) = Inl rej \<Longrightarrow>
   fst (analyzeWithClaude e net content ty cp) = Inl (ServiceError Claude (detail rej))"
  by (simp add: analyzeWithClaude_def Let_def)

lemma openai_rejected:
  "net (openai_request e (select_prompt ty cp) content) = Inl rej \<Longrightarrow>
   fst (analyzeWithOpenAI e net content ty cp) = Inl (ServiceError OpenAI (detail rej))"
  by (simp add: analyzeWithOpenAI_def Let_def)

lemma gemini_rejected:
  "net (gemini_request e (select_prompt ty cp) content) = Inl rej \<Longrightarrow>
   fst (analyzeWithGemini e net content ty cp) = Inl (ServiceError Gemini (detail rej))"
  by (simp add: analyzeWithGemini_def Let_def)

lemma gemini_no_text:
  "net (gemini_request e (select_prompt ty cp) content) = Inr d \<Longrightarrow>
   gemini_text d = None \<or> gemini_text d = Some [] \<Longrightarrow>
   fst (analyzeWithGemini e net content ty cp)
   = Inl (ServiceError Gemini ''No analysis text received from Gemini'')"
  by (auto simp: analyzeWithGemini_def Let_def detail_def no_text_error_def)

lemma processingTime_complete:
  "processingTime_of (complete clock startTime content ty r)
   = (if isl (fst r) then None else Some (clock Returned - startTime))"
  by (cases r) (auto simp: processingTime_of_def complete_def Let_def split: sum.splits)

text \<open>
  Claim C1. Content that is empty or consists of white space only is rejected as
  \<open>EmptyContent\<close>, whatever its length, so before the length check. For any other content the
  run fails with \<open>TooShort\<close> exactly when the content has fewer than 50 code units, and content
  of 50 code units or more passes both checks.
\<close>

theorem content_validation:
  "(list_all isWhiteSpace content \<longrightarrow>
      analyzeWithAI e net clock content provider analysisType customPrompt
      = (Inl EmptyContent, []))
   \<and> (\<not> list_all isWhiteSpace content \<longrightarrow>
      (fst (analyzeWithAI e net clock content provider analysisType customPrompt) = Inl TooShort)
      = (length content < 50))
   \<and> (\<not> list_all isWhiteSpace content \<and> 50 \<le> length content \<longrightarrow>
      fst (analyzeWithAI e net clock content provider analysisType customPrompt) \<noteq> Inl EmptyContent
      \<and> fst (analyzeWithAI e net clock content provider analysisType customPrompt) \<noteq> Inl TooShort)"
proof (intro conjI impI)
  assume "list_all isWhiteSpace content"
  then have "js_trim content = []" by (simp add: trim_empty_iff)
  then show "analyzeWithAI e net clock content provider analysisType customPrompt
             = (Inl EmptyContent, [])"
    by (simp add: analyzeWithAI_def)
next
  assume nb: "\<not> list_all isWhiteSpace content"
  then have ne: "content \<noteq> []" "js_trim content \<noteq> []"
    by (auto simp: trim_empty_iff)
  show "(fst (analyzeWithAI e net clock content provider analysisType customPrompt) = Inl TooShort)
        = (length content < 50)"
  proof (cases "length content < 50")
    case True
    with ne show ?thesis by (simp add: analyzeWithAI_def)
  next
    case False
    then have "50 \<le> length content" by simp
    with nb have "fst (analyzeWithAI e net clock content provider analysisType customPrompt)
                  \<noteq> Inl TooShort"
      using dispatch_failure by blast
    with False show ?thesis by simp
  qed
next
  assume "\<not> list_all isWhiteSpace content \<and> 50 \<le> length content"
  then show "fst (analyzeWithAI e net clock content provider analysisType customPrompt)
             \<noteq> Inl EmptyContent"
    using dispatch_failure by blast
next
  assume "\<not> list_all isWhiteSpace content \<and> 50 \<le> length content"
  then show "fst (analyzeWithAI e net clock content provider analysisType customPrompt)
             \<noteq> Inl TooShort"
    using dispatch_failure by blast
qed

theorem content_validation_witness:
  "analyzeWithAI env_all net_ok clock_example ''   '' ''claude'' None None = (Inl EmptyContent, [])
   \<and> fst (analyzeWithAI env_all net_ok clock_example ''too short'' ''claude'' None None)
       = Inl TooShort
   \<and> fst (analyzeWithAI env_all net_ok clock_example sample_content ''claude'' None None)
       \<noteq> Inl TooShort"
proof -
  have blank: "list_all isWhiteSpace ''   ''"
    by (simp add: isWhiteSpace_def)
  have short: "\<not> list_all isWhiteSpace ''too short''" "length ''too short'' < 50"
    by (simp_all add: isWhiteSpace_def)
  have long: "\<not> list_all isWhiteSpace sample_content" "50 \<le> length sample_content"
    by (simp_all add: isWhiteSpace_def sample_content_def)
  show ?thesis
    using content_validation [where content = "''   ''" and e = env_all and net = net_ok
        and clock = clock_example and provider = "''claude''" and analysisType = None
        and customPrompt = None]
      content_validation [where content = "''too short''" and e = env_all and net = net_ok
        and clock = clock_example and provider = "''claude''" and analysisType = None
        and customPrompt = None]
      content_validation [where content = sample_content and e = env_all and net = net_ok
        and clock = clock_example and provider = "''claude''" and analysisType = None
        and customPrompt = None]
      blank short long
    by blast
qed

text \<open>
  Claim C2. For each of the three providers, selected by the lower-cased provider name, a run
  whose credential is unset or empty issues no request and enters no adapter (the list of
  effects is empty) and fails; on content that passes validation the failure is
  \<open>NotConfigured\<close> of that provider.
\<close>

theorem missing_credential:
  "(toLowerCase provider = ''claude'' \<and> \<not> configured (CLAUDE_API_KEY e) \<longrightarrow>
      snd (analyzeWithAI e net clock content provider analysisType customPrompt) = []
      \<and> isl (fst (analyzeWithAI e net clock content provider analysisType customPrompt))
      \<and> (\<not> list_all isWhiteSpace content \<and> 50 \<le> length content \<longrightarrow>
           fst (analyzeWithAI e net clock content provider analysisType customPrompt)
           = Inl (NotConfigured Claude)))
   \<and> (toLowerCase provider = ''openai'' \<and> \<not> configured (OPENAI_API_KEY e) \<longrightarrow>
      snd (analyzeWithAI e net clock content provider analysisType customPrompt) = []
      \<and> isl (fst (analyzeWithAI e net clock content provider analysisType customPrompt))
      \<and> (\<not> list_all isWhiteSpace content \<and> 50 \<le> length content \<longrightarrow>
           fst (analyzeWithAI e net clock content provider analysisType customPrompt)
           = Inl (NotConfigured OpenAI)))
   \<and> (toLowerCase provider = ''gemini'' \<and> \<not> configured (GEMINI_API_KEY e) \<longrightarrow>
      snd (analyzeWithAI e net clock content provider analysisType customPrompt) = []
      \<and> isl (fst (analyzeWithAI e net clock content provider analysisType customPrompt))
      \<and> (\<not> list_all isWhiteSpace content \<and> 50 \<le> length content \<longrightarrow>
           fst (analyzeWithAI e net clock content provider analysisType customPrompt)
           = Inl (NotConfigured Gemini)))"
  by (auto simp: analyzeWithAI_def Let_def trim_empty_iff)

theorem missing_credential_witness:
  "analyzeWithAI env_none net_ok clock_example sample_content ''claude'' None None
     = (Inl (NotConfigured Claude), [])
   \<and> analyzeWithAI env_none net_ok clock_example sample_content ''OpenAI'' None None
     = (Inl (NotConfigured OpenAI), [])
   \<and> analyzeWithAI env_none net_ok clock_example sample_content ''gemini'' None None
     = (Inl (NotConfigured Gemini), [])"
proof -
  have valid: "\<not> list_all isWhiteSpace sample_content" "50 \<le> length sample_content"
    by (simp_all add: isWhiteSpace_def sample_content_def)
  have names: "toLowerCase ''claude'' = ''claude''" "toLowerCase ''OpenAI'' = ''openai''"
    "toLowerCase ''gemini'' = ''gemini''"
    by code_simp+
  have keys: "\<not> configured (CLAUDE_API_KEY env_none)" "\<not> configured (OPENAI_API_KEY env_none)"
    "\<not> configured (GEMINI_API_KEY env_none)"
    by (simp_all add: configured_def env_none_def)
  show ?thesis
    using missing_credential [where provider = "''claude''" and e = env_none and net = net_ok
        and clock = clock_example and content = sample_content and analysisType = None
        and customPrompt = None]
      missing_credential [where provider = "''OpenAI''" and e = env_none and net = net_ok
        and clock = clock_example and content = sample_content and analysisType = None
        and customPrompt = None]
      missing_credential [where provider = "''gemini''" and e = env_none and net = net_ok
        and clock = clock_example and content = sample_content and analysisType = None
        and customPrompt = None]
      valid names keys
    by (simp add: prod_eq_iff)
qed

text \<open>
  Claim C5. On content that passes validation, a provider whose lower-cased name is none of
  \<open>claude\<close>, \<open>openai\<close>, \<open>gemini\<close> makes the run fail with \<open>UnsupportedProvider\<close>, with no
  adapter entered and no request issued.
\<close>

theorem unsupported_provider:
  assumes "\<not> list_all isWhiteSpace content" and "50 \<le> length content"
    and "toLowerCase provider \<noteq> ''claude''" and "toLowerCase provider \<noteq> ''openai''"
    and "toLowerCase provider \<noteq> ''gemini''"
  shows "analyzeWithAI e net clock content provider analysisType customPrompt
         = (Inl (UnsupportedProvider provider), [])"
  using assms by (auto simp: analyzeWithAI_def Let_def trim_empty_iff)

theorem unsupported_provider_witness:
  "analyzeWithAI env_all net_ok clock_example sample_content ''foo'' None None
   = (Inl (UnsupportedProvider ''foo''), [])"
proof -
  have valid: "\<not> list_all isWhiteSpace sample_content" "50 \<le> length sample_content"
    by (simp_all add: isWhiteSpace_def sample_content_def)
  have names: "toLowerCase ''foo'' \<noteq> ''claude''" "toLowerCase ''foo'' \<noteq> ''openai''"
    "toLowerCase ''foo'' \<noteq> ''gemini''"
    by code_simp+
  show ?thesis
    using unsupported_provider [OF valid names] .
qed

text \<open>
  Claim C3. Each of the three adapters, whatever the content, issues one request, whose user
  message is the instruction, the separator \<open>Document content:\<close> between newlines, and then
  the content itself when it has at most 50000 code units and its first 50000 code units
  otherwise. No length of the content makes the adapter fail before the request.
\<close>

theorem truncated_document:
  "snd (analyzeWithClaude e net content analysisType customPrompt)
     = [Invoke Claude, Post (claude_request e (select_prompt analysisType customPrompt) content)]
   \<and> user_content (claude_request e (select_prompt analysisType customPrompt) content)
     = prompt_text (select_prompt analysisType customPrompt)
       @ [CHR 0x0A, CHR 0x0A] @ ''Document content:'' @ [CHR 0x0A]
       @ (if length content \<le> 50000 then content else take 50000 content)
   \<and> snd (analyzeWithOpenAI e net content analysisType customPrompt)
     = [Invoke OpenAI, Post (openai_request e (select_prompt analysisType customPrompt) content)]
   \<and> user_content (openai_request e (select_prompt analysisType customPrompt) content)
     = prompt_text (select_prompt analysisType customPrompt)
       @ [CHR 0x0A, CHR 0x0A] @ ''Document content:'' @ [CHR 0x0A]
       @ (if length content \<le> 50000 then content else take 50000 content)
   \<and> snd (analyzeWithGemini e net content analysisType customPrompt)
     = [Invoke Gemini, Post (gemini_request e (select_prompt analysisType customPrompt) content)]
   \<and> user_content (gemini_request e (select_prompt analysisType customPrompt) content)
     = prompt_text (select_prompt analysisType customPrompt)
       @ [CHR 0x0A, CHR 0x0A] @ ''Document content:'' @ [CHR 0x0A]
       @ (if length content \<le> 50000 then content else take 50000 content)"
  by (simp add: analyzeWithClaude_def analyzeWithOpenAI_def analyzeWithGemini_def Let_def
      claude_request_def openai_request_def gemini_request_def user_message_def
      substring_prefix)

theorem truncated_document_witness:
  "user_content (gemini_request env_all (select_prompt None (Some ''Review this.''))
     (replicate 60000 (CHR ''x'')))
   = ''Review this.'' @ [CHR 0x0A, CHR 0x0A] @ ''Document content:'' @ [CHR 0x0A]
     @ replicate 50000 (CHR ''x'')"
proof -
  have p: "prompt_text (select_prompt None (Some ''Review this.'')) = ''Review this.''"
    by (simp add: select_prompt_def prompt_text_def)
  show ?thesis
    using truncated_document [where e = env_all and analysisType = None
        and customPrompt = "Some ''Review this.''" and content = "replicate 60000 (CHR ''x'')"]
      p
    by simp
qed

text \<open>
  On every \<open>analysisType\<close> that does not name a member of \<open>Object.prototype\<close> the selection
  is: a non-empty custom prompt, else the block of a known analysis type, else the general
  block.
\<close>

lemma select_prompt_policy:
  assumes "property_key analysisType \<notin> set Object_prototype_keys"
  shows "select_prompt analysisType customPrompt =
     (if customPrompt \<noteq> None \<and> customPrompt \<noteq> Some [] then Text (the customPrompt)
      else if analysisType = Some ''security-review'' then Text security_review_prompt
      else if analysisType = Some ''policy-analysis'' then Text policy_analysis_prompt
      else if analysisType = Some ''compliance-check'' then Text compliance_check_prompt
      else Text general_prompt)"
proof -
  have ne: "security_review_prompt \<noteq> []" "policy_analysis_prompt \<noteq> []"
    "compliance_check_prompt \<noteq> []" "general_prompt \<noteq> []"
    by (simp_all add: security_review_prompt_def policy_analysis_prompt_def
        compliance_check_prompt_def general_prompt_def template_block_def)
  show ?thesis
    using assms ne
    by (cases analysisType; cases customPrompt)
       (auto simp: select_prompt_def ANALYSIS_PROMPTS_def property_key_def)
qed

text \<open>
  Claim C4, evaluated at the analysis type \<open>constructor\<close> with no custom prompt. The key is
  not one of the four own keys of \<open>ANALYSIS_PROMPTS\<close>, but the property read finds the
  inherited \<open>Object.prototype.constructor\<close>, which is truthy, so the fallback to the general
  instruction is not taken and the request carries the source text of that function as its
  instruction.
\<close>

theorem inherited_key_selected:
  "select_prompt (Some ''constructor'') None = Inherited ''constructor''
   \<and> select_prompt (Some ''constructor'') None \<noteq> Text general_prompt
   \<and> snd (analyzeWithAI env_all net_ok clock_example sample_content ''claude''
            (Some ''constructor'') None)
     = [Invoke Claude, Post (claude_request env_all (Inherited ''constructor'') sample_content)]
   \<and> user_content (claude_request env_all (Inherited ''constructor'') sample_content)
     = ''function Object() { [native code] }'' @ [CHR 0x0A, CHR 0x0A] @ ''Document content:''
       @ [CHR 0x0A] @ sample_content"
proof -
  have sel: "select_prompt (Some ''constructor'') None = Inherited ''constructor''"
    by (simp add: select_prompt_def ANALYSIS_PROMPTS_def property_key_def
        Object_prototype_keys_def)
  have valid: "sample_content \<noteq> []" "js_trim sample_content \<noteq> []" "\<not> length sample_content < 50"
    by (simp_all add: sample_content_def js_trim_def isWhiteSpace_def)
  have name: "toLowerCase ''claude'' = ''claude''"
    by code_simp
  have key: "configured (CLAUDE_API_KEY env_all)"
    by (simp add: configured_def env_all_def)
  have run: "snd (analyzeWithAI env_all net_ok clock_example sample_content ''claude''
                   (Some ''constructor'') None)
             = [Invoke Claude, Post (claude_request env_all (Inherited ''constructor'') sample_content)]"
    using valid name key sel
    by (simp add: analyzeWithAI_def complete_events analyzeWithClaude_def Let_def default_type_def)
  have len: "length sample_content \<le> 50000"
    by (simp add: sample_content_def)
  have msg: "user_content (claude_request env_all (Inherited ''constructor'') sample_content)
     = ''function Object() { [native code] }'' @ [CHR 0x0A, CHR 0x0A] @ ''Document content:''
       @ [CHR 0x0A] @ sample_content"
    using len
    by (simp add: claude_request_def user_message_def prompt_text_def substring_prefix)
  from sel run msg show ?thesis by simp
qed

text \<open>
  Claim C8, as amended. On content that passes validation and with the provider configured,
  every failure of a run is a \<open>ServiceError\<close> of that provider: a plain error whose message is
  the fixed prefix of the provider followed by a detail. When the transport rejects the
  request the detail is the message of the provider's error body if there is one and the
  message of the thrown error otherwise; the HTTP status is not kept. A Gemini response
  without analysis text fails in the same form, with the detail
  \<open>No analysis text received from Gemini\<close>.
\<close>

theorem adapter_failures_are_wrapped:
  assumes "\<not> list_all isWhiteSpace content" and "50 \<le> length content"
  shows
    "(toLowerCase provider = ''claude'' \<and> configured (CLAUDE_API_KEY e) \<longrightarrow>
        (fst (analyzeWithAI e net clock content provider analysisType customPrompt) = Inl err
           \<longrightarrow> err \<in> range (ServiceError Claude))
        \<and> (net (claude_request e (select_prompt (Some (default_type analysisType)) customPrompt)
                  content) = Inl rej
           \<longrightarrow> fst (analyzeWithAI e net clock content provider analysisType customPrompt)
               = Inl (ServiceError Claude (detail rej))))
     \<and> (toLowerCase provider = ''openai'' \<and> configured (OPENAI_API_KEY e) \<longrightarrow>
        (fst (analyzeWithAI e net clock content provider analysisType customPrompt) = Inl err
           \<longrightarrow> err \<in> range (ServiceError OpenAI))
        \<and> (net (openai_request e (select_prompt (Some (default_type analysisType)) customPrompt)
                  content) = Inl rej
           \<longrightarrow> fst (analyzeWithAI e net clock content provider analysisType customPrompt)
               = Inl (ServiceError OpenAI (detail rej))))
     \<and> (toLowerCase provider = ''gemini'' \<and> configured (GEMINI_API_KEY e) \<longrightarrow>
        (fst (analyzeWithAI e net clock content provider analysisType customPrompt) = Inl err
           \<longrightarrow> err \<in> range (ServiceError Gemini))
        \<and> (net (gemini_request e (select_prompt (Some (default_type analysisType)) customPrompt)
                  content) = Inl rej
           \<longrightarrow> fst (analyzeWithAI e net clock content provider analysisType customPrompt)
               = Inl (ServiceError Gemini (detail rej)))
        \<and> (net (gemini_request e (select_prompt (Some (default_type analysisType)) customPrompt)
                  content) = Inr d
            \<and> (gemini_text d = None \<or> gemini_text d = Some [])
           \<longrightarrow> fst (analyzeWithAI e net clock content provider analysisType customPrompt)
               = Inl (ServiceError Gemini ''No analysis text received from Gemini'')))"
proof (intro conjI impI; (elim conjE)?)
  assume p: "toLowerCase provider = ''claude''" "configured (CLAUDE_API_KEY e)"
  note run = dispatch_claude [OF assms p]
  {
    assume "fst (analyzeWithAI e net clock content provider analysisType customPrompt) = Inl err"
    then show "err \<in> range (ServiceError Claude)"
      unfolding run by (auto dest!: complete_failure dest: claude_failure)
  next
    assume "net (claude_request e (select_prompt (Some (default_type analysisType)) customPrompt)
                  content) = Inl rej"
    then show "fst (analyzeWithAI e net clock content provider analysisType customPrompt)
               = Inl (ServiceError Claude (detail rej))"
      unfolding run by (intro complete_keeps_error claude_rejected)
  }
next
  assume p: "toLowerCase provider = ''openai''" "configured (OPENAI_API_KEY e)"
  note run = dispatch_openai [OF assms p]
  {
    assume "fst (analyzeWithAI e net clock content provider analysisType customPrompt) = Inl err"
    then show "err \<in> range (ServiceError OpenAI)"
      unfolding run by (auto dest!: complete_failure dest: openai_failure)
  next
    assume "net (openai_request e (select_prompt (Some (default_type analysisType)) customPrompt)
                  content) = Inl rej"
    then show "fst (analyzeWithAI e net clock content provider analysisType customPrompt)
               = Inl (ServiceError OpenAI (detail rej))"
      unfolding run by (intro complete_keeps_error openai_rejected)
  }
next
  assume p: "toLowerCase provider = ''gemini''" "configured (GEMINI_API_KEY e)"
  note run = dispatch_gemini [OF assms p]
  {
    assume "fst (analyzeWithAI e net clock content provider analysisType customPrompt) = Inl err"
    then show "err \<in> range (ServiceError Gemini)"
      unfolding run by (auto dest!: complete_failure dest: gemini_failure)
  next
    assume "net (gemini_request e (select_prompt (Some (default_type analysisType)) customPrompt)
                  content) = Inl rej"
    then show "fst (analyzeWithAI e net clock content provider analysisType customPrompt)
               = Inl (ServiceError Gemini (detail rej))"
      unfolding run by (intro complete_keeps_error gemini_rejected)
  next
    assume "net (gemini_request e (select_prompt (Some (default_type analysisType)) customPrompt)
                  content) = Inr d"
      and "gemini_text d = None \<or> gemini_text d = Some []"
    then show "fst (analyzeWithAI e net clock content provider analysisType customPrompt)
               = Inl (ServiceError Gemini ''No analysis text received from Gemini'')"
      unfolding run by (intro complete_keeps_error gemini_no_text)
  }
qed

theorem adapter_failures_are_wrapped_witness:
  "fst (analyzeWithAI env_all net_timeout clock_example sample_content ''claude'' None None)
   = Inl (ServiceError Claude ''timeout of 60000ms exceeded'')
   \<and> error_message (ServiceError Claude ''timeout of 60000ms exceeded'')
     = ''Claude AI service error: timeout of 60000ms exceeded''"
proof -
  have valid: "\<not> list_all isWhiteSpace sample_content" "50 \<le> length sample_content"
    by (simp_all add: isWhiteSpace_def sample_content_def)
  have name: "toLowerCase ''claude'' = ''claude''"
    by code_simp
  have key: "configured (CLAUDE_API_KEY env_all)"
    by (simp add: configured_def env_all_def)
  have rej: "net_timeout (claude_request env_all (select_prompt (Some (default_type None)) None)
                            sample_content)
             = Inl \<lparr>http_status = None, response_message = None,
                     message = ''timeout of 60000ms exceeded''\<rparr>"
    by (simp add: net_timeout_def)
  have d: "detail \<lparr>http_status = None, response_message = None,
                    message = ''timeout of 60000ms exceeded''\<rparr> = ''timeout of 60000ms exceeded''"
    by (simp add: detail_def)
  show ?thesis
    using adapter_failures_are_wrapped [OF valid, where provider = "''claude''" and e = env_all
        and net = net_timeout and analysisType = None and customPrompt = None
        and clock = clock_example
        and rej = "\<lparr>http_status = None, response_message = None,
                      message = ''timeout of 60000ms exceeded''\<rparr>"]
      name key rej d
    by simp
qed

text \<open>
  Claim C8 as stated fails: a Gemini response with an empty candidate list and a rejected
  request (HTTP 503) whose error body carries the same text surface as one and the same
  error, so absent analysis text is not told apart from a transport failure.
\<close>

theorem absent_text_same_as_rejection:
  "analyzeWithAI env_all net_empty_candidates clock_example sample_content ''gemini'' None None
   = analyzeWithAI env_all net_unavailable clock_example sample_content ''gemini'' None None
   \<and> fst (analyzeWithAI env_all net_empty_candidates clock_example sample_content ''gemini'' None None)
   = Inl (ServiceError Gemini ''No analysis text received from Gemini'')
   \<and> fst (analyzeWithAI env_all net_unavailable clock_example sample_content ''gemini'' None None)
   = Inl (ServiceError Gemini ''No analysis text received from Gemini'')"
proof -
  have valid: "\<not> list_all isWhiteSpace sample_content" "50 \<le> length sample_content"
    by (simp_all add: isWhiteSpace_def sample_content_def)
  have name: "toLowerCase ''gemini'' = ''gemini''"
    by code_simp
  have key: "configured (GEMINI_API_KEY env_all)"
    by (simp add: configured_def env_all_def)
  note run = dispatch_gemini [OF valid name key]
  have "fst (analyzeWithGemini env_all net_empty_candidates sample_content
               (Some (default_type None)) None)
        = Inl (ServiceError Gemini ''No analysis text received from Gemini'')"
    by (rule gemini_no_text [where d = "ok_data\<lparr>data_candidates := Some []\<rparr>"])
       (simp_all add: net_empty_candidates_def gemini_text_def)
  moreover have "fst (analyzeWithGemini env_all net_unavailable sample_content
                        (Some (default_type None)) None)
        = Inl (ServiceError Gemini ''No analysis text received from Gemini'')"
    by (simp add: analyzeWithGemini_def Let_def net_unavailable_def detail_def)
  moreover have "snd (analyzeWithGemini env_all net_empty_candidates sample_content
                        (Some (default_type None)) None)
        = snd (analyzeWithGemini env_all net_unavailable sample_content
                 (Some (default_type None)) None)"
    by (simp add: analyzeWithGemini_def Let_def)
  ultimately show ?thesis
    by (simp add: run complete_error prod_eq_iff)
qed

text \<open>
  Claim C9, as amended. The processing time of a run is the clock after the adapter has
  returned minus the clock on entry to \<open>analyzeWithAI\<close>, so it spans content validation, the
  credential check, instruction selection and the adapter call; a run that fails, at any
  stage, reports no processing time.
\<close>

theorem processing_time_since_entry:
  "processingTime_of (analyzeWithAI e net clock content provider analysisType customPrompt)
   = (if isl (fst (analyzeWithAI e net clock content provider analysisType customPrompt)) then None
      else Some (clock Returned - clock Entry))"
proof -
  have failed: "processingTime_of (Inl err, evs) = None" for err evs
    by (simp add: processingTime_of_def)
  show ?thesis
    by (simp add: analyzeWithAI_def Let_def failed processingTime_complete complete_isl)
qed

theorem processing_time_since_entry_witness:
  "processingTime_of
     (analyzeWithAI env_all net_ok clock_example sample_content ''openai'' None None)
   = Some (clock_example Returned - clock_example Entry)
   \<and> processingTime_of
       (analyzeWithAI env_all net_timeout clock_example sample_content ''openai'' None None)
     = None"
proof -
  have valid: "\<not> list_all isWhiteSpace sample_content" "50 \<le> length sample_content"
    by (simp_all add: isWhiteSpace_def sample_content_def)
  have name: "toLowerCase ''openai'' = ''openai''"
    by code_simp
  have key: "configured (OPENAI_API_KEY env_all)"
    by (simp add: configured_def env_all_def)
  have ok: "\<not> isl (fst (analyzeWithAI env_all net_ok clock_example sample_content ''openai''
                            None None))"
    by (simp add: dispatch_openai [OF valid name key] complete_isl analyzeWithOpenAI_def Let_def
        net_ok_def openai_text_def ok_data_def)
  have bad: "isl (fst (analyzeWithAI env_all net_timeout clock_example sample_content ''openai''
                         None None))"
    by (simp add: dispatch_openai [OF valid name key] complete_isl analyzeWithOpenAI_def Let_def
        net_timeout_def)
  show ?thesis
    using processing_time_since_entry [of env_all net_ok clock_example sample_content
        "''openai''" None None]
      processing_time_since_entry [of env_all net_timeout clock_example sample_content
        "''openai''" None None]
      ok bad
    by simp
qed

text \<open>
  Claim C9 as stated fails: with entry at 1000, the adapter called at 1005 and returned at
  1007, the run reports 7 milliseconds, not the 2 milliseconds of the adapter call.
\<close>

theorem processing_time_includes_validation:
  "processingTime_of
     (analyzeWithAI env_all net_ok clock_example sample_content ''claude'' None None)
   \<noteq> Some (clock_example Returned - clock_example Dispatch)
   \<and> processingTime_of
       (analyzeWithAI env_all net_ok clock_example sample_content ''claude'' None None) = Some 7
   \<and> clock_example Returned - clock_example Dispatch = 2
   \<and> clock_example Returned - clock_example Entry = 7"
proof -
  have valid: "\<not> list_all isWhiteSpace sample_content" "50 \<le> length sample_content"
    by (simp_all add: isWhiteSpace_def sample_content_def)
  have name: "toLowerCase ''claude'' = ''claude''"
    by code_simp
  have key: "configured (CLAUDE_API_KEY env_all)"
    by (simp add: configured_def env_all_def)
  have ok: "\<not> isl (fst (analyzeWithClaude env_all net_ok sample_content
                            (Some (default_type None)) None))"
    by (simp add: analyzeWithClaude_def Let_def net_ok_def claude_text_def ok_data_def)
  show ?thesis
    by (simp add: dispatch_claude [OF valid name key] processingTime_complete ok)
qed

end
